theory Spec2Isabelle
  imports Complex_Main
begin

section \<open>How control leaves a function\<close>

text \<open>
  The sources signal every failure with the operand-less statement \<^verbatim>\<open>throw;\<close>.
  In C++ that statement re-raises the exception that is being handled at the moment; when
  no exception is being handled it calls \<^verbatim>\<open>std::terminate\<close>, which ends the program.
  A call therefore has one of four outcomes. \<open>Undefined\<close> stands for undefined behaviour:
  reading through a null pointer, through a pointer into a released allocation, or an
  element of an empty sequence.
\<close>

datatype ('e, 'a) outcome = Returned 'a | Rethrown 'e | Terminated | Undefined

text \<open>\<open>handled\<close> is the exception being handled when \<^verbatim>\<open>throw;\<close> is reached, if any.\<close>

definition bare_throw :: "'e option \<Rightarrow> ('e, 'a) outcome" where
  "bare_throw handled = (case handled of None \<Rightarrow> Terminated | Some e \<Rightarrow> Rethrown e)"

section \<open>Coordinates, the tolerance test and the bounding box\<close>

type_synonym LinaVector = "real list"

text \<open>
  The scalar type \<^verbatim>\<open>Real\<close> is \<^verbatim>\<open>double\<close> in \<^verbatim>\<open>test.cpp\<close>. A finite double is a real
  number, and every arithmetic operation returns the exact result rounded to the nearest
  double, a tie going to the even significand: 53 significant bits, and steps of
  \<open>2 ^ -1074\<close> in the subnormal range. Overflow is not modelled: a result beyond the
  largest double stays a real number, and it fails the comparison with the tolerance as
  the infinity of the machine does.
\<close>

definition round_half_even :: "real \<Rightarrow> int" where
  "round_half_even y =
     (let f = \<lfloor>y\<rfloor>
      in if y - of_int f < 1 / 2 then f
         else if 1 / 2 < y - of_int f then f + 1
         else if even f then f else f + 1)"

text \<open>The exact result \<open>y\<close> of an operation, as the machine returns it.\<close>

definition round_to_double :: "real \<Rightarrow> real" where
  "round_to_double y =
     (if y = 0 then 0
      else let u = 2 powr of_int (max (\<lfloor>log 2 \<bar>y\<bar>\<rfloor> - 52) (- 1074))
           in of_int (round_half_even (y / u)) * u)"

text \<open>
  \<^verbatim>\<open>(*vl)->_global - gl\<close> of line 106: the difference of two coordinates, component by
  component, each rounded.
\<close>

definition vminus :: "LinaVector \<Rightarrow> LinaVector \<Rightarrow> LinaVector" where
  "vminus a b = map2 (\<lambda>p q. round_to_double (p - q)) a b"

text \<open>
  Modelled from the spec: \<^verbatim>\<open>math::norm2\<close> is declared in a header that is not part of
  the sources at hand; the spec calls the quantity compared with the tolerance the
  Euclidean distance of the two coordinates. The squares are summed in the order of the
  components, and every product, sum and the square root is rounded.
\<close>

definition norm2 :: "LinaVector \<Rightarrow> real" where
  "norm2 v =
     round_to_double
       (sqrt (foldl (\<lambda>s c. round_to_double (s + round_to_double (c * c))) 0 v))"

text \<open>
  The test of \<^verbatim>\<open>tree/root.hpp\<close> line 106,
  \<^verbatim>\<open>math::norm2((*vl)->_global - gl) < 10.*std::numeric_limits<Real>::epsilon()\<close>,
  with the machine epsilon of the scalar type as a parameter. The registration pass below
  takes the outcome of the test as a parameter, so its general properties do not depend
  on how the test is computed.
\<close>

definition within_tol :: "real \<Rightarrow> LinaVector \<Rightarrow> LinaVector \<Rightarrow> bool" where
  "within_tol epsilon g gl = (norm2 (vminus g gl) < round_to_double (10 * epsilon))"

text \<open>
  The distance of the spec's wording, over the real numbers: the claim about the identity
  of vertices is stated with it.
\<close>

definition euclidean_distance :: "LinaVector \<Rightarrow> LinaVector \<Rightarrow> real" where
  "euclidean_distance a b = sqrt (\<Sum>c\<leftarrow>map2 (-) a b. c\<^sup>2)"

text \<open>The machine epsilon of \<^verbatim>\<open>double\<close>, the scalar type \<^verbatim>\<open>test.cpp\<close> instantiates.\<close>

definition double_epsilon :: real where
  "double_epsilon = 1 / 2 ^ 52"

text \<open>
  Modelled from the spec: the class \<^verbatim>\<open>BoundingBox\<close> is declared in a header that is not
  part of the sources at hand. The spec gives it an empty extent before the first
  \<^verbatim>\<open>append\<close>, \<^verbatim>\<open>append\<close> extends the minimum and maximum of every axis to include the
  coordinate, and \<^verbatim>\<open>contains\<close> is inclusive.
\<close>

datatype BoundingBox = Empty | Box LinaVector LinaVector

fun append_box :: "BoundingBox \<Rightarrow> LinaVector \<Rightarrow> BoundingBox" where
  "append_box Empty c = Box c c"
| "append_box (Box lo hi) c = Box (map2 min lo c) (map2 max hi c)"

fun contains :: "BoundingBox \<Rightarrow> LinaVector \<Rightarrow> bool" where
  "contains Empty c = False"
| "contains (Box lo hi) c = (list_all2 (\<le>) lo c \<and> list_all2 (\<le>) c hi)"

section \<open>The entity container and the addresses taken from it\<close>

text \<open>
  \<^verbatim>\<open>std::vector<EntitySeed> _entities\<close>. The constructor stores addresses of its elements
  (\<^verbatim>\<open>&(_entities.back())\<close>), so the model keeps the identity of the allocation that holds
  the elements: \<open>block\<close> changes whenever \<^verbatim>\<open>push_back\<close> has to reallocate, which it does
  when the size has reached the capacity. The new capacity is the one of libstdc++
  (size plus the larger of size and one).
\<close>

type_synonym EntitySeed = nat

record 'a vector =
  block :: nat
  capacity :: nat
  elems :: "'a list"

definition empty_vector :: "'a vector" where
  "empty_vector = \<lparr>block = 0, capacity = 0, elems = []\<rparr>"

definition push_back :: "'a vector \<Rightarrow> 'a \<Rightarrow> 'a vector" where
  "push_back v a =
     (if length (elems v) < capacity v then v\<lparr>elems := elems v @ [a]\<rparr>
      else \<lparr>block = Suc (block v),
            capacity = length (elems v) + max (length (elems v)) 1,
            elems = elems v @ [a]\<rparr>)"

text \<open>An address into a vector: the allocation and the position in it.\<close>

type_synonym pointer = "nat \<times> nat"

definition back_address :: "'a vector \<Rightarrow> pointer" where
  "back_address v = (block v, length (elems v) - 1)"

text \<open>
  Reading through an address is defined exactly when the address points into the
  allocation the vector owns now.
\<close>

definition deref :: "'a vector \<Rightarrow> pointer \<Rightarrow> 'a option" where
  "deref v p =
     (if fst p = block v \<and> snd p < length (elems v) then Some (elems v ! snd p) else None)"

section \<open>Vertices, nodes and the root\<close>

record Vertex =
  global :: LinaVector
  entity_seed :: "pointer list"

text \<open>
  \<^verbatim>\<open>new Vertex()\<close>: no incident element yet. The coordinate of a fresh vertex is assigned
  at line 117 before anything reads it.
\<close>

definition new_Vertex :: Vertex where
  "new_Vertex = \<lparr>global = [], entity_seed = []\<rparr>"

text \<open>
  The members of \<^verbatim>\<open>Node\<close> that \<^verbatim>\<open>tree::Root\<close> uses (\<^verbatim>\<open>_vertex\<close>, \<^verbatim>\<open>_bounding_box\<close>), and
  \<^verbatim>\<open>tree::Root\<close>, which derives from \<^verbatim>\<open>Node\<close> and adds \<^verbatim>\<open>_entities\<close>.
\<close>

record Node =
  vertex :: "Vertex list"
  bounding_box :: BoundingBox

record Root = Node +
  entities :: "EntitySeed vector"

text \<open>An object whose members are all default-initialised.\<close>

definition default_Root :: Root where
  "default_Root = \<lparr>vertex = [], bounding_box = Empty, entities = empty_vector\<rparr>"

text \<open>
  \<^verbatim>\<open>Root( const Root<GridView>& root ) {};\<close> (line 80): no member initialiser and an
  empty body, so the base and \<^verbatim>\<open>_entities\<close> are default-initialised and the argument is not read.
\<close>

definition Root_copy :: "Root \<Rightarrow> Root" where
  "Root_copy other = default_Root"

section \<open>The constructor of \<^verbatim>\<open>tree::Root\<close>: the registration pass\<close>

text \<open>
  What the constructor reads of a grid element: its seed and the corner coordinates of its
  geometry, in the order \<^verbatim>\<open>geo.corner(0)\<close>, \<^verbatim>\<open>geo.corner(1)\<close>, ...
\<close>

record Element =
  seed :: EntitySeed
  corners :: "LinaVector list"

text \<open>
  The object under construction together with the constructor's local \<^verbatim>\<open>_l_vertex\<close>.
  The vertex objects are allocated one by one and \<^verbatim>\<open>_l_vertex\<close> holds each exactly once,
  so a \<^verbatim>\<open>Vertex*\<close> is modelled by the position of the vertex in \<^verbatim>\<open>_l_vertex\<close>.
\<close>

record Root_frame = Root +
  l_vertex :: "Vertex list"

text \<open>
  Lines 103 to 108: the scan over \<^verbatim>\<open>_l_vertex\<close>. \<open>near g gl\<close> is the outcome of the
  test of line 106 on the stored coordinate \<open>g\<close> and the corner \<open>gl\<close>. The loop has no
  \<^verbatim>\<open>break\<close>: every match overwrites \<^verbatim>\<open>_v\<close>. The fourth argument is the position of
  the vertex under the iterator, the fifth is \<^verbatim>\<open>_v\<close> (\<open>None\<close> for \<^verbatim>\<open>NULL\<close>).
\<close>

fun find_vertex ::
  "(LinaVector \<Rightarrow> LinaVector \<Rightarrow> bool) \<Rightarrow> LinaVector \<Rightarrow> Vertex list \<Rightarrow> nat \<Rightarrow> nat option
   \<Rightarrow> nat option" where
  "find_vertex near gl [] i v = v"
| "find_vertex near gl (vl # rest) i v =
     find_vertex near gl rest (Suc i) (if near (global vl) gl then Some i else v)"

text \<open>Lines 110 to 114: the vertex \<^verbatim>\<open>_v\<close> points to afterwards, and the frame.\<close>

definition resolve ::
  "(LinaVector \<Rightarrow> LinaVector \<Rightarrow> bool) \<Rightarrow> Root_frame \<Rightarrow> LinaVector \<Rightarrow> Root_frame \<times> nat" where
  "resolve near f gl =
     (case find_vertex near gl (l_vertex f) 0 None of
        None \<Rightarrow> (f\<lparr>l_vertex := l_vertex f @ [new_Vertex],
                    bounding_box := append_box (bounding_box f) gl\<rparr>,
                  length (l_vertex f))
      | Some i \<Rightarrow> (f, i))"

text \<open>Lines 101 to 118: the body of the loop over the corners of one element.\<close>

definition register_corner ::
  "(LinaVector \<Rightarrow> LinaVector \<Rightarrow> bool) \<Rightarrow> Root_frame \<Rightarrow> LinaVector \<Rightarrow> Root_frame" where
  "register_corner near f gl =
     (let (f1, i) = resolve near f gl;
          v = l_vertex f1 ! i
      in f1\<lparr>l_vertex := (l_vertex f1)
             [i := v\<lparr>global := gl,
                     entity_seed := entity_seed v @ [back_address (entities f1)]\<rparr>]\<rparr>)"

text \<open>Lines 93 to 120: the body of the loop over the elements of the grid view.\<close>

definition register_element ::
  "(LinaVector \<Rightarrow> LinaVector \<Rightarrow> bool) \<Rightarrow> Root_frame \<Rightarrow> Element \<Rightarrow> Root_frame" where
  "register_element near f e =
     foldl (register_corner near) (f\<lparr>entities := push_back (entities f) (seed e)\<rparr>) (corners e)"

definition initial_frame :: Root_frame where
  "initial_frame = \<lparr>vertex = [], bounding_box = Empty, entities = empty_vector, l_vertex = []\<rparr>"

text \<open>
  Lines 88 to 120: the frame when the loop over the elements ends. The call of
  \<^verbatim>\<open>put\<close> that follows builds the tree from \<^verbatim>\<open>_l_vertex\<close>; \<^verbatim>\<open>put\<close> is declared in a
  header that is not part of the sources at hand.
\<close>

definition Root_ctor :: "(LinaVector \<Rightarrow> LinaVector \<Rightarrow> bool) \<Rightarrow> Element list \<Rightarrow> Root_frame" where
  "Root_ctor near gridview = foldl (register_element near) initial_frame gridview"

text \<open>
  Two observations of the pass, used to state its properties: the position in
  \<^verbatim>\<open>_l_vertex\<close> of the vertex \<^verbatim>\<open>_v\<close> each corner of a sequence is resolved to, for the
  corners of one element and for all corners of a grid view, in the order of the pass.
\<close>

fun resolutions ::
  "(LinaVector \<Rightarrow> LinaVector \<Rightarrow> bool) \<Rightarrow> Root_frame \<Rightarrow> LinaVector list \<Rightarrow> nat list" where
  "resolutions near f [] = []"
| "resolutions near f (gl # gls) =
     snd (resolve near f gl) # resolutions near (register_corner near f gl) gls"

fun mesh_resolutions ::
  "(LinaVector \<Rightarrow> LinaVector \<Rightarrow> bool) \<Rightarrow> Root_frame \<Rightarrow> Element list \<Rightarrow> nat list" where
  "mesh_resolutions near f [] = []"
| "mesh_resolutions near f (e # es) =
     resolutions near (f\<lparr>entities := push_back (entities f) (seed e)\<rparr>) (corners e)
     @ mesh_resolutions near (register_element near f e) es"

text \<open>
  The invariant of the pass behind its last-write-wins behaviour: \<open>rs\<close> are the
  resolutions of the corners \<open>gls\<close> registered so far, every resolution is a position
  in \<open>vs\<close>, and a vertex holds the coordinate of the last corner resolved to it.
\<close>

definition latest_wins :: "Vertex list \<Rightarrow> nat list \<Rightarrow> LinaVector list \<Rightarrow> bool" where
  "latest_wins vs rs gls =
     (length rs = length gls \<and> (\<forall>k < length rs. rs ! k < length vs)
      \<and> (\<forall>k < length gls. (\<forall>m. k < m \<and> m < length gls \<longrightarrow> rs ! m \<noteq> rs ! k)
            \<longrightarrow> global (vs ! (rs ! k)) = gls ! k))"

text \<open>
  The corners that created a vertex: those whose resolution is a position no earlier
  corner was resolved to. \<open>seen\<close> are the resolutions of the earlier corners.
\<close>

fun new_vertex_corners :: "nat list \<Rightarrow> nat list \<Rightarrow> LinaVector list \<Rightarrow> LinaVector list" where
  "new_vertex_corners seen (r # rs) (gl # gls) =
     (if r \<in> set seen then [] else [gl]) @ new_vertex_corners (seen @ [r]) rs gls"
| "new_vertex_corners seen rs gls = []"

text \<open>
  The first address the pass stores, in the vertex of the first corner of the first
  element: the element at position 0 of the first allocation of \<^verbatim>\<open>_entities\<close>.
\<close>

definition first_address :: "Vertex list \<Rightarrow> bool" where
  "first_address vs = (vs \<noteq> [] \<and> (\<exists>ps. entity_seed (vs ! 0) = (1, 0) # ps))"

section \<open>Point location\<close>

text \<open>
  Lines 168 to 178: the loop over the incident elements of one vertex and the
  \<^verbatim>\<open>throw;\<close> behind it. \<open>checkInside s x\<close> is the outcome of the collaborator's test
  \<^verbatim>\<open>gre.checkInside( geo.local( xg ) )\<close> for the element with seed \<open>s\<close>; the entity pointer
  that is returned is identified with the seed it was made from.
\<close>

fun test_seeds ::
  "'e option \<Rightarrow> (EntitySeed \<Rightarrow> LinaVector \<Rightarrow> bool) \<Rightarrow> EntitySeed vector \<Rightarrow> LinaVector
   \<Rightarrow> pointer list \<Rightarrow> ('e, EntitySeed) outcome" where
  "test_seeds handled checkInside ents xq [] = bare_throw handled"
| "test_seeds handled checkInside ents xq (es # rest) =
     (case deref ents es of
        None \<Rightarrow> Undefined
      | Some s \<Rightarrow> if checkInside s xq then Returned s
                  else test_seeds handled checkInside ents xq rest)"

text \<open>
  Lines 157 to 179. \<^verbatim>\<open>findNode\<close> is declared in a header that is not part of the sources
  at hand and is a parameter: it returns the leaf for a coordinate, or \<^verbatim>\<open>NULL\<close>. The
  null check of lines 162 and 163 is commented out, and only \<^verbatim>\<open>node->vertex(0)\<close> is read.
\<close>

definition findEntity ::
  "'e option \<Rightarrow> (LinaVector \<Rightarrow> Node option) \<Rightarrow> (EntitySeed \<Rightarrow> LinaVector \<Rightarrow> bool)
   \<Rightarrow> 'z Root_scheme \<Rightarrow> LinaVector \<Rightarrow> ('e, EntitySeed) outcome" where
  "findEntity handled findNode checkInside this xq =
     (case findNode xq of
        None \<Rightarrow> Undefined
      | Some node \<Rightarrow>
          (case vertex node of
             [] \<Rightarrow> Undefined
           | v0 # _ \<Rightarrow> test_seeds handled checkInside (entities this) xq (entity_seed v0)))"

section \<open>Collaborators of the examples\<close>

text \<open>
  An instance of the parameter \<^verbatim>\<open>findNode\<close>: a tree that consists of one unsplit node
  answers with the node itself for a coordinate inside its box and with \<^verbatim>\<open>NULL\<close>
  otherwise.
\<close>

definition single_leaf :: "Node \<Rightarrow> LinaVector \<Rightarrow> Node option" where
  "single_leaf leaf xq = (if contains (bounding_box leaf) xq then Some leaf else None)"

text \<open>
  The inclusive membership test of a grid on the line whose element with seed \<open>s\<close> is
  the segment from \<open>s\<close> to \<open>s + 1\<close>.
\<close>

definition segment_checkInside :: "EntitySeed \<Rightarrow> LinaVector \<Rightarrow> bool" where
  "segment_checkInside s xq =
     (case xq of [a] \<Rightarrow> real s \<le> a \<and> a \<le> real s + 1 | _ \<Rightarrow> False)"

section \<open>The trajectory buffer of \<^verbatim>\<open>test.cpp\<close>\<close>

record XT =
  XT_x :: LinaVector
  XT_t :: real

record Trajectory =
  adepting :: bool
  data :: "XT list"
  dq :: "XT list"

text \<open>
  \<^verbatim>\<open>void insert( const XT<BT, dim>& xt ) { if (!adepting) throw; }\<close> (lines 338 to 340).
\<close>

definition Trajectory_insert :: "'e option \<Rightarrow> XT \<Rightarrow> Trajectory \<Rightarrow> ('e, Trajectory) outcome" where
  "Trajectory_insert handled xt tr = (if \<not> adepting tr then bare_throw handled else Returned tr)"

section \<open>Properties\<close>

lemma bare_throw_not_Returned: "bare_throw h \<noteq> Returned a"
  by (simp add: bare_throw_def split: option.split)

subsection \<open>Rounding: results that are exact, and a lower bound\<close>

text \<open>
  A real number \<open>m / 2 ^ k\<close> with \<open>\<bar>m\<bar> < 2 ^ 53\<close> and \<open>k \<le> 1074\<close> is a double, and
  rounding returns it unchanged. Rounding never takes a number below a power of two that
  is a normal double and lies at or below it.
\<close>

lemma round_half_even_int: "round_half_even (of_int n) = n"
  by (simp add: round_half_even_def)

lemma round_to_double_exact:
  assumes x: "y * 2 ^ k = of_int m" and m: "\<bar>m\<bar> < 2 ^ 53" and k: "k \<le> 1074"
  shows "round_to_double y = y"
proof (cases "y = 0")
  case True
  then show ?thesis by (simp add: round_to_double_def)
next
  case False
  define e where "e = \<lfloor>log 2 \<bar>y\<bar>\<rfloor>"
  define ue where "ue = max (e - 52) (- 1074)"
  have y: "y = of_int m / 2 ^ k" using x by (simp add: field_simps)
  have "\<bar>y\<bar> * 2 ^ k < 2 ^ 53"
  proof -
    have "\<bar>y\<bar> * 2 ^ k = \<bar>of_int m :: real\<bar>" using x by (simp add: abs_mult flip: x)
    also have "\<dots> < 2 ^ 53" using m by (metis of_int_abs of_int_less_numeral_power_cancel_iff)
    finally show ?thesis .
  qed
  then have "\<bar>y\<bar> < 2 ^ 53 / 2 ^ k" by (simp add: field_simps)
  also have "\<dots> = 2 powr (53 - real k)"
    by (simp add: powr_diff powr_realpow flip: powr_realpow)
  finally have "log 2 \<bar>y\<bar> < 53 - real k"
    using False by (simp add: log_less_iff)
  then have "e < 53 - int k" unfolding e_def by (simp add: floor_less_iff)
  then have ue: "ue \<le> - int k" using k unfolding ue_def by simp
  define n where "n = nat (- int k - ue)"
  have n: "int n = - int k - ue" using ue by (simp add: n_def)
  have "(2::real) powr of_int ue * 2 ^ n = 2 powr (of_int ue + real n)"
    by (simp add: powr_add powr_realpow)
  also have "of_int ue + real n = - real k" using n by linarith
  also have "(2::real) powr (- real k) = 1 / 2 ^ k"
    by (simp add: powr_minus powr_realpow divide_simps)
  finally have u: "(2::real) powr of_int ue * 2 ^ n = 1 / 2 ^ k" .
  have "y / 2 powr of_int ue = of_int m * (1 / 2 ^ k) / 2 powr of_int ue" using y by simp
  also have "\<dots> = of_int m * 2 ^ n" by (simp flip: u)
  finally have q: "y / 2 powr of_int ue = of_int (m * 2 ^ n)" by simp
  have "round_to_double y = of_int (round_half_even (y / 2 powr of_int ue)) * 2 powr of_int ue"
    using False by (simp add: round_to_double_def Let_def ue_def e_def)
  also have "\<dots> = of_int (m * 2 ^ n) * 2 powr of_int ue"
    unfolding q round_half_even_int ..
  also have "\<dots> = y / 2 powr of_int ue * 2 powr of_int ue" unfolding q ..
  also have "\<dots> = y" by simp
  finally show ?thesis .
qed


lemma round_half_even_ge_floor: "\<lfloor>y\<rfloor> \<le> round_half_even y"
  by (simp add: round_half_even_def Let_def)

lemma round_to_double_lower:
  assumes y: "2 powr of_int p \<le> y" and p: "- 1022 \<le> p"
  shows "2 powr of_int p \<le> round_to_double y"
proof -
  have pos: "0 < y" using y by (smt (verit) powr_gt_zero)
  define e where "e = \<lfloor>log 2 \<bar>y\<bar>\<rfloor>"
  have "of_int p \<le> log 2 y" using y pos by (simp add: le_log_iff)
  then have pe: "p \<le> e" unfolding e_def using pos by (simp add: le_floor_iff)
  have "of_int e \<le> log 2 y" unfolding e_def using pos by simp
  then have ey: "2 powr of_int e \<le> y" using pos by (simp add: le_log_iff)
  have ue: "max (e - 52) (- 1074) = e - 52" using pe p by simp
  define u :: real where "u = 2 powr of_int (e - 52)"
  have upos: "0 < u" by (simp add: u_def)
  have eu: "2 powr of_int e = 2 ^ 52 * u"
    by (simp add: u_def powr_diff)
  have "2 ^ 52 \<le> y / u" using ey upos unfolding eu by (simp add: pos_le_divide_eq)
  then have "(2 ^ 52 :: int) \<le> \<lfloor>y / u\<rfloor>" by (simp add: le_floor_iff)
  with round_half_even_ge_floor [of "y / u"] have "(2 ^ 52 :: int) \<le> round_half_even (y / u)"
    by linarith
  then have "(2 ^ 52 :: real) \<le> of_int (round_half_even (y / u))"
    by (metis of_int_numeral of_int_power of_int_le_iff)
  then have "2 ^ 52 * u \<le> of_int (round_half_even (y / u)) * u"
    using upos by (simp add: mult_right_mono)
  moreover have "round_to_double y = of_int (round_half_even (y / u)) * u"
    using pos ue by (simp add: round_to_double_def Let_def e_def u_def)
  moreover have "(2::real) powr of_int p \<le> 2 powr of_int e" using pe by simp
  ultimately show ?thesis unfolding eu by linarith
qed

lemma round_to_double_integer:
  "y \<in> \<int> \<Longrightarrow> \<bar>y\<bar> < 2 ^ 53 \<Longrightarrow> round_to_double y = y"
proof -
  assume "y \<in> \<int>" and b: "\<bar>y\<bar> < 2 ^ 53"
  then obtain m where m: "y = of_int m" by (auto elim: Ints_cases)
  with b have "\<bar>m\<bar> < 2 ^ 53" by (metis of_int_abs of_int_less_numeral_power_cancel_iff)
  with m round_to_double_exact [of y 0 m] show ?thesis by simp
qed

lemma round_to_double_grid52:
  "y * 2 ^ 52 \<in> \<int> \<Longrightarrow> \<bar>y\<bar> * 2 ^ 52 < 2 ^ 53 \<Longrightarrow> round_to_double y = y"
proof -
  assume "y * 2 ^ 52 \<in> \<int>" and b: "\<bar>y\<bar> * 2 ^ 52 < 2 ^ 53"
  then obtain m where m: "y * 2 ^ 52 = of_int m" by (auto elim: Ints_cases)
  have "\<bar>of_int m :: real\<bar> = \<bar>y\<bar> * 2 ^ 52" by (simp add: abs_mult flip: m)
  with b have "\<bar>m\<bar> < 2 ^ 53" by (metis of_int_abs of_int_less_numeral_power_cancel_iff)
  with m round_to_double_exact [of y 52 m] show ?thesis by simp
qed

lemma round_to_double_grid104:
  "y * 2 ^ 104 \<in> \<int> \<Longrightarrow> \<bar>y\<bar> * 2 ^ 104 < 2 ^ 53 \<Longrightarrow> round_to_double y = y"
proof -
  assume "y * 2 ^ 104 \<in> \<int>" and b: "\<bar>y\<bar> * 2 ^ 104 < 2 ^ 53"
  then obtain m where m: "y * 2 ^ 104 = of_int m" by (auto elim: Ints_cases)
  have "\<bar>of_int m :: real\<bar> = \<bar>y\<bar> * 2 ^ 104" by (simp add: abs_mult flip: m)
  with b have "\<bar>m\<bar> < 2 ^ 53" by (metis of_int_abs of_int_less_numeral_power_cancel_iff)
  with m round_to_double_exact [of y 104 m] show ?thesis by simp
qed

text \<open>
  A result that is not exact: the difference of the doubles \<open>5629499534213119 / 2 ^ 101\<close>
  and \<open>- 1 / 2 ^ 102\<close> lies half-way between two doubles and is rounded to the one with
  the even significand, which is ten times the machine epsilon.
\<close>

lemma round_to_double_normal:
  assumes lo: "2 powr of_int e \<le> \<bar>y\<bar>" and hi: "\<bar>y\<bar> < 2 powr of_int (e + 1)"
    and e: "- 1022 \<le> e"
  shows "round_to_double y
         = of_int (round_half_even (y / 2 powr of_int (e - 52))) * 2 powr of_int (e - 52)"
proof -
  have pos: "0 < \<bar>y\<bar>" using lo by (smt (verit) powr_gt_zero)
  have "of_int e \<le> log 2 \<bar>y\<bar>" using lo pos by (simp add: le_log_iff)
  moreover have "log 2 \<bar>y\<bar> < of_int (e + 1)" using hi pos by (simp add: log_less_iff)
  ultimately have "\<lfloor>log 2 \<bar>y\<bar>\<rfloor> = e" by (simp add: floor_eq_iff)
  with pos e show ?thesis by (simp add: round_to_double_def Let_def)
qed

lemma tie_goes_to_even:
  "round_to_double (5629499534213119 / 2 ^ 101 - (- 1 / 2 ^ 102)) = 10 / 2 ^ 52"
proof -
  let ?y = "5629499534213119 / 2 ^ 101 - (- 1 / 2 ^ 102) :: real"
  have p: "(2::real) powr of_int (- 49) = 1 / 2 ^ 49" "(2::real) powr of_int (- 49 + 1) = 1 / 2 ^ 48"
    "(2::real) powr of_int (- 49 - 52) = 1 / 2 ^ 101"
    by (simp_all add: powr_minus_divide)
  have lo: "2 powr of_int (- 49) \<le> \<bar>?y\<bar>" unfolding p by simp
  have hi: "\<bar>?y\<bar> < 2 powr of_int (- 49 + 1)" unfolding p by simp
  have q: "?y / (1 / 2 ^ 101) = 5629499534213119 + 1 / 2" by simp
  have "round_half_even (5629499534213119 + 1 / 2) = 5629499534213120"
    by (simp add: round_half_even_def Let_def)
  with round_to_double_normal [OF lo hi] show ?thesis unfolding p q by simp
qed

subsection \<open>The tolerance test on the line\<close>

text \<open>
  For coordinates with one component the test is decided by the exact difference \<open>a - b\<close>
  when the subtraction is exact and either the square of the difference is a double, or
  the difference is at least one half.
\<close>

lemma norm2_on_the_line:
  "round_to_double (d * d) = d * d \<Longrightarrow> round_to_double \<bar>d\<bar> = \<bar>d\<bar> \<Longrightarrow> norm2 [d] = \<bar>d\<bar>"
  by (simp add: norm2_def)

lemma norm2_far:
  assumes "1 / 2 \<le> \<bar>d\<bar>"
  shows "1 / 2 \<le> norm2 [d]"
proof -
  have "1 / 4 \<le> \<bar>d\<bar> * \<bar>d\<bar>" using assms mult_mono [of "1 / 2" "\<bar>d\<bar>" "1 / 2" "\<bar>d\<bar>"] by simp
  then have "2 powr of_int (- 2) \<le> d * d" by (simp add: powr_minus_divide flip: abs_mult)
  from round_to_double_lower [OF this]
  have q: "1 / 4 \<le> round_to_double (d * d)" by (simp add: powr_minus_divide)
  then have "2 powr of_int (- 2) \<le> 0 + round_to_double (d * d)" by (simp add: powr_minus_divide)
  from round_to_double_lower [OF this]
  have "1 / 4 \<le> round_to_double (0 + round_to_double (d * d))" by (simp add: powr_minus_divide)
  then have "sqrt (1 / 4) \<le> sqrt (round_to_double (0 + round_to_double (d * d)))"
    by (simp only: real_sqrt_le_iff)
  moreover have "sqrt (1 / 4) = 1 / 2"
    using real_sqrt_abs [of "1 / 2"] by (simp add: power2_eq_square)
  ultimately have "2 powr of_int (- 1) \<le> sqrt (round_to_double (0 + round_to_double (d * d)))"
    by (simp add: powr_minus_divide)
  from round_to_double_lower [OF this] show ?thesis
    by (simp add: norm2_def powr_minus_divide)
qed

lemma within_tol_near:
  "round_to_double (a - b) = a - b \<Longrightarrow>
   round_to_double ((a - b) * (a - b)) = (a - b) * (a - b) \<Longrightarrow>
   round_to_double \<bar>a - b\<bar> = \<bar>a - b\<bar> \<Longrightarrow>
   within_tol epsilon [a] [b] = (\<bar>a - b\<bar> < round_to_double (10 * epsilon))"
  by (simp add: within_tol_def vminus_def norm2_on_the_line)

lemma within_tol_far:
  "round_to_double (a - b) = a - b \<Longrightarrow> 1 / 2 \<le> \<bar>a - b\<bar> \<Longrightarrow>
   round_to_double (10 * epsilon) \<le> 1 / 2 \<Longrightarrow> within_tol epsilon [a] [b] = False"
  using norm2_far [of "a - b"] by (simp add: within_tol_def vminus_def)

lemma euclidean_distance_on_the_line: "euclidean_distance [a] [b] = \<bar>a - b\<bar>"
  by (simp add: euclidean_distance_def)

lemmas run_test = within_tol_near within_tol_far double_epsilon_def
  round_to_double_integer round_to_double_grid52 round_to_double_grid104

text \<open>
  At those two coordinates the exact distance is below the tolerance and the test of the
  program, made on the rounded difference, fails.
\<close>

lemma rounded_test_at_the_boundary:
  "euclidean_distance [5629499534213119 / 2 ^ 101] [- 1 / 2 ^ 102] < 10 * double_epsilon
   \<and> \<not> within_tol double_epsilon [5629499534213119 / 2 ^ 101] [- 1 / 2 ^ 102]"
proof -
  have n: "norm2 [10 / 2 ^ 52] = \<bar>10 / 2 ^ 52\<bar>"
    by (rule norm2_on_the_line) (simp_all add: run_test)
  have "within_tol double_epsilon [5629499534213119 / 2 ^ 101] [- 1 / 2 ^ 102]
        = (norm2 [round_to_double (5629499534213119 / 2 ^ 101 - (- 1 / 2 ^ 102))]
           < round_to_double (10 * double_epsilon))"
    by (simp only: within_tol_def vminus_def zip_Cons_Cons zip_Nil list.map prod.case)
  also have "\<dots> = (\<bar>10 / 2 ^ 52\<bar> < round_to_double (10 * double_epsilon))"
    by (simp only: tie_goes_to_even n)
  also have "\<dots> = False"
    by (simp add: double_epsilon_def round_to_double_grid52)
  finally show ?thesis
    by (simp add: euclidean_distance_on_the_line double_epsilon_def)
qed

subsection \<open>Facts about the scan and the registration of one corner\<close>

lemma find_vertex_append:
  "find_vertex near gl (vs @ ws) i v = find_vertex near gl ws (i + length vs) (find_vertex near gl vs i v)"
  by (induction vs arbitrary: i v) simp_all

lemma find_vertex_snoc:
  "find_vertex near gl (vs @ [u]) i v =
     (if near (global u) gl then Some (i + length vs) else find_vertex near gl vs i v)"
  by (simp add: find_vertex_append)

lemma find_vertex_None:
  "(find_vertex near gl vs 0 None = None) = (\<forall>u \<in> set vs. \<not> near (global u) gl)"
  by (induction vs rule: rev_induct) (auto simp add: find_vertex_snoc)

lemma find_vertex_Some:
  "(find_vertex near gl vs 0 None = Some k) =
     (k < length vs \<and> near (global (vs ! k)) gl
      \<and> (\<forall>j. k < j \<and> j < length vs \<longrightarrow> \<not> near (global (vs ! j)) gl))"
proof (induction vs rule: rev_induct)
  case Nil
  show ?case by simp
next
  case (snoc u vs)
  let ?R = "k < length (vs @ [u]) \<and> near (global ((vs @ [u]) ! k)) gl
      \<and> (\<forall>j. k < j \<and> j < length (vs @ [u]) \<longrightarrow> \<not> near (global ((vs @ [u]) ! j)) gl)"
  show ?case
  proof (cases "near (global u) gl")
    case True
    have "?R = (k = length vs)"
    proof
      assume r: ?R
      show "k = length vs"
      proof (rule ccontr)
        assume "k \<noteq> length vs"
        with r have "k < length vs" by simp
        moreover from r have "\<forall>j. k < j \<and> j < length (vs @ [u]) \<longrightarrow> \<not> near (global ((vs @ [u]) ! j)) gl"
          by blast
        ultimately have "\<not> near (global ((vs @ [u]) ! length vs)) gl"
          by (simp del: nth_append_length)
        with True show False by simp
      qed
    next
      assume "k = length vs"
      with True show ?R by auto
    qed
    with True show ?thesis by (auto simp add: find_vertex_snoc)
  next
    case False
    have "?R = (k < length vs \<and> near (global (vs ! k)) gl
      \<and> (\<forall>j. k < j \<and> j < length vs \<longrightarrow> \<not> near (global (vs ! j)) gl))"
      using False by (auto simp add: nth_append less_Suc_eq)
    with False snoc.IH show ?thesis by (simp add: find_vertex_snoc)
  qed
qed

lemma resolve_new:
  "find_vertex near gl (l_vertex f) 0 None = None \<Longrightarrow>
   resolve near f gl =
     (f\<lparr>l_vertex := l_vertex f @ [new_Vertex], bounding_box := append_box (bounding_box f) gl\<rparr>,
      length (l_vertex f))"
  by (simp add: resolve_def)

lemma resolve_old:
  "find_vertex near gl (l_vertex f) 0 None = Some i \<Longrightarrow> resolve near f gl = (f, i)"
  by (simp add: resolve_def)

lemma register_corner_new:
  "find_vertex near gl (l_vertex f) 0 None = None \<Longrightarrow>
   register_corner near f gl =
     f\<lparr>l_vertex := l_vertex f @ [\<lparr>global = gl, entity_seed = [back_address (entities f)]\<rparr>],
       bounding_box := append_box (bounding_box f) gl\<rparr>"
  by (simp add: register_corner_def resolve_new new_Vertex_def)

lemma register_corner_old:
  "find_vertex near gl (l_vertex f) 0 None = Some i \<Longrightarrow>
   register_corner near f gl =
     f\<lparr>l_vertex := (l_vertex f)
        [i := (l_vertex f ! i)\<lparr>global := gl,
               entity_seed := entity_seed (l_vertex f ! i) @ [back_address (entities f)]\<rparr>]\<rparr>"
  by (simp add: register_corner_def resolve_old Let_def)

lemma resolved_bound: "snd (resolve near f gl) < length (l_vertex (register_corner near f gl))"
proof (cases "find_vertex near gl (l_vertex f) 0 None")
  case None
  then show ?thesis by (simp add: resolve_new register_corner_new)
next
  case (Some i)
  then show ?thesis by (simp add: resolve_old register_corner_old find_vertex_Some)
qed

lemma resolved_global:
  "global (l_vertex (register_corner near f gl) ! snd (resolve near f gl)) = gl"
proof (cases "find_vertex near gl (l_vertex f) 0 None")
  case None
  then show ?thesis by (simp add: resolve_new register_corner_new)
next
  case (Some i)
  then show ?thesis by (simp add: resolve_old register_corner_old find_vertex_Some)
qed

lemma register_corner_length:
  "length (l_vertex f) \<le> length (l_vertex (register_corner near f gl))"
  by (cases "find_vertex near gl (l_vertex f) 0 None")
     (simp_all add: register_corner_new register_corner_old)

lemma register_corner_others:
  "i < length (l_vertex f) \<Longrightarrow> snd (resolve near f gl) \<noteq> i \<Longrightarrow>
   l_vertex (register_corner near f gl) ! i = l_vertex f ! i"
  by (cases "find_vertex near gl (l_vertex f) 0 None")
     (simp_all add: register_corner_new register_corner_old resolve_old nth_append)

lemma register_corner_entities: "entities (register_corner near f gl) = entities f"
  by (cases "find_vertex near gl (l_vertex f) 0 None")
     (simp_all add: register_corner_new register_corner_old)


lemma latest_wins_step:
  assumes "latest_wins (l_vertex f) rs gls"
  shows "latest_wins (l_vertex (register_corner near f gl))
           (rs @ [snd (resolve near f gl)]) (gls @ [gl])"
proof -
  let ?i = "snd (resolve near f gl)"
  let ?vs = "l_vertex (register_corner near f gl)"
  from assms have len: "length rs = length gls"
    and bnd: "\<And>k. k < length rs \<Longrightarrow> rs ! k < length (l_vertex f)"
    and win: "\<And>k. k < length gls \<Longrightarrow> (\<forall>m. k < m \<and> m < length gls \<longrightarrow> rs ! m \<noteq> rs ! k)
            \<Longrightarrow> global (l_vertex f ! (rs ! k)) = gls ! k"
    by (simp_all add: latest_wins_def)
  have b: "\<forall>k < length (rs @ [?i]). (rs @ [?i]) ! k < length ?vs"
  proof (intro allI impI)
    fix k assume "k < length (rs @ [?i])"
    then consider "k < length rs" | "k = length rs" by fastforce
    then show "(rs @ [?i]) ! k < length ?vs"
    proof cases
      case 1
      from bnd [OF 1] register_corner_length [of f near gl] 1 show ?thesis
        by (simp add: nth_append)
    next
      case 2
      then show ?thesis using resolved_bound [of near f gl] by (simp add: nth_append)
    qed
  qed
  have w: "\<forall>k < length (gls @ [gl]).
            (\<forall>m. k < m \<and> m < length (gls @ [gl]) \<longrightarrow> (rs @ [?i]) ! m \<noteq> (rs @ [?i]) ! k)
            \<longrightarrow> global (?vs ! ((rs @ [?i]) ! k)) = (gls @ [gl]) ! k"
  proof (intro allI impI)
    fix k
    assume k: "k < length (gls @ [gl])"
      and last: "\<forall>m. k < m \<and> m < length (gls @ [gl]) \<longrightarrow> (rs @ [?i]) ! m \<noteq> (rs @ [?i]) ! k"
    from k consider "k < length gls" | "k = length gls" by fastforce
    then show "global (?vs ! ((rs @ [?i]) ! k)) = (gls @ [gl]) ! k"
    proof cases
      case 1
      with len have kr: "k < length rs" by simp
      from last 1 len have "(rs @ [?i]) ! length gls \<noteq> (rs @ [?i]) ! k" by simp
      with len kr have ne: "?i \<noteq> rs ! k" by (simp add: nth_append)
      have "\<forall>m. k < m \<and> m < length gls \<longrightarrow> rs ! m \<noteq> rs ! k"
      proof (intro allI impI)
        fix m assume m: "k < m \<and> m < length gls"
        with last have "(rs @ [?i]) ! m \<noteq> (rs @ [?i]) ! k" by simp
        with m len show "rs ! m \<noteq> rs ! k" by (simp add: nth_append)
      qed
      from win [OF 1 this] have "global (l_vertex f ! (rs ! k)) = gls ! k" .
      moreover from register_corner_others [OF bnd [OF kr] ne]
      have "?vs ! (rs ! k) = l_vertex f ! (rs ! k)" .
      ultimately show ?thesis using 1 kr by (simp add: nth_append)
    next
      case 2
      with len show ?thesis using resolved_global [of near f gl] by (simp add: nth_append)
    qed
  qed
  from len b w show ?thesis unfolding latest_wins_def by simp
qed

lemma latest_wins_corners:
  "latest_wins (l_vertex f) rs gls \<Longrightarrow>
   latest_wins (l_vertex (foldl (register_corner near) f cs))
     (rs @ resolutions near f cs) (gls @ cs)"
proof (induction cs arbitrary: f rs gls)
  case Nil
  then show ?case by simp
next
  case (Cons c cs)
  from Cons.IH [OF latest_wins_step [OF Cons.prems, of near c]] show ?case by simp
qed

lemma latest_wins_elements:
  "latest_wins (l_vertex f) rs gls \<Longrightarrow>
   latest_wins (l_vertex (foldl (register_element near) f es))
     (rs @ mesh_resolutions near f es) (gls @ concat (map corners es))"
proof (induction es arbitrary: f rs gls)
  case Nil
  then show ?case by simp
next
  case (Cons e es)
  let ?f = "f\<lparr>entities := push_back (entities f) (seed e)\<rparr>"
  from Cons.prems have "latest_wins (l_vertex ?f) rs gls" by simp
  from latest_wins_corners [OF this, of near "corners e"]
  have "latest_wins (l_vertex (register_element near f e))
          (rs @ resolutions near ?f (corners e)) (gls @ corners e)"
    by (simp add: register_element_def)
  from Cons.IH [OF this] show ?case by simp
qed

lemmas run_ctor = Root_ctor_def register_element_def register_corner_def resolve_def
  initial_frame_def new_Vertex_def push_back_def empty_vector_def back_address_def

lemma length_resolutions: "length (resolutions near f cs) = length cs"
  by (induction cs arbitrary: f) simp_all

lemma new_vertex_corners_append:
  "length rs1 = length gls1 \<Longrightarrow>
   new_vertex_corners seen (rs1 @ rs2) (gls1 @ gls2) =
     new_vertex_corners seen rs1 gls1 @ new_vertex_corners (seen @ rs1) rs2 gls2"
proof (induction rs1 arbitrary: seen gls1)
  case Nil
  then show ?case by simp
next
  case (Cons r rs1)
  then obtain gl gls where "gls1 = gl # gls" by (cases gls1) auto
  with Cons show ?case by simp
qed

lemma box_corners:
  "set seen = {..<length (l_vertex f)} \<Longrightarrow>
   bounding_box (foldl (register_corner near) f cs) =
     foldl append_box (bounding_box f) (new_vertex_corners seen (resolutions near f cs) cs)
   \<and> set (seen @ resolutions near f cs) = {..<length (l_vertex (foldl (register_corner near) f cs))}"
proof (induction cs arbitrary: f seen)
  case Nil
  then show ?case by simp
next
  case (Cons c cs)
  let ?f = "register_corner near f c"
  let ?i = "snd (resolve near f c)"
  show ?case
  proof (cases "find_vertex near c (l_vertex f) 0 None")
    case None
    then have i: "?i = length (l_vertex f)" by (simp add: resolve_new)
    from None have len: "length (l_vertex ?f) = Suc (length (l_vertex f))"
      by (simp add: register_corner_new)
    from None have box: "bounding_box ?f = append_box (bounding_box f) c"
      by (simp add: register_corner_new)
    from i Cons.prems have new: "?i \<notin> set seen" by simp
    from i len Cons.prems have "set (seen @ [?i]) = {..<length (l_vertex ?f)}"
      by (simp add: lessThan_Suc)
    from Cons.IH [OF this]
    have "bounding_box (foldl (register_corner near) ?f cs) =
            foldl append_box (bounding_box ?f)
              (new_vertex_corners (seen @ [?i]) (resolutions near ?f cs) cs)"
      and "set ((seen @ [?i]) @ resolutions near ?f cs)
            = {..<length (l_vertex (foldl (register_corner near) ?f cs))}"
      by blast+
    with new box show ?thesis by simp
  next
    case (Some k)
    then have i: "?i = k" by (simp add: resolve_old)
    from Some have k: "k < length (l_vertex f)" by (simp add: find_vertex_Some)
    from Some have len: "length (l_vertex ?f) = length (l_vertex f)"
      by (simp add: register_corner_old)
    from Some have box: "bounding_box ?f = bounding_box f"
      by (simp add: register_corner_old)
    from i k Cons.prems have old: "?i \<in> set seen" by simp
    with len Cons.prems have "set (seen @ [?i]) = {..<length (l_vertex ?f)}"
      by (simp add: insert_absorb)
    from Cons.IH [OF this]
    have "bounding_box (foldl (register_corner near) ?f cs) =
            foldl append_box (bounding_box ?f)
              (new_vertex_corners (seen @ [?i]) (resolutions near ?f cs) cs)"
      and "set ((seen @ [?i]) @ resolutions near ?f cs)
            = {..<length (l_vertex (foldl (register_corner near) ?f cs))}"
      by blast+
    with old box show ?thesis by simp
  qed
qed

lemma box_elements:
  "set seen = {..<length (l_vertex f)} \<Longrightarrow>
   bounding_box (foldl (register_element near) f es) =
     foldl append_box (bounding_box f)
       (new_vertex_corners seen (mesh_resolutions near f es) (concat (map corners es)))"
proof (induction es arbitrary: f seen)
  case Nil
  then show ?case by simp
next
  case (Cons e es)
  let ?f = "f\<lparr>entities := push_back (entities f) (seed e)\<rparr>"
  from Cons.prems have "set seen = {..<length (l_vertex ?f)}" by simp
  from box_corners [OF this, of near "corners e"]
  have b: "bounding_box (register_element near f e) =
      foldl append_box (bounding_box f)
        (new_vertex_corners seen (resolutions near ?f (corners e)) (corners e))"
    and s: "set (seen @ resolutions near ?f (corners e))
            = {..<length (l_vertex (register_element near f e))}"
    by (simp_all add: register_element_def)
  from Cons.IH [OF s] b show ?case
    by (simp add: new_vertex_corners_append length_resolutions)
qed

subsection \<open>The address stored for the first element\<close>

text \<open>
  In every grid view of two or more elements whose first element has a corner, the address
  stored first is still the head of the incident-element list of the first vertex when the
  pass ends, and it no longer points into \<^verbatim>\<open>_entities\<close>.
\<close>

lemma block_push_back: "block v \<le> block (push_back v a)"
  by (simp add: push_back_def)

lemma first_address_corner:
  assumes "first_address (l_vertex f)"
  shows "first_address (l_vertex (register_corner near f gl))"
proof (cases "find_vertex near gl (l_vertex f) 0 None")
  case None
  with assms show ?thesis
    by (auto simp add: first_address_def register_corner_new nth_append)
next
  case (Some i)
  then have "i < length (l_vertex f)" by (simp add: find_vertex_Some)
  with Some assms show ?thesis
    by (cases i) (auto simp add: first_address_def register_corner_old nth_list_update)
qed

lemma first_address_corners:
  "first_address (l_vertex f) \<Longrightarrow> first_address (l_vertex (foldl (register_corner near) f cs))"
  by (induction cs arbitrary: f) (simp_all add: first_address_corner)

lemma entities_corners: "entities (foldl (register_corner near) f cs) = entities f"
  by (induction cs arbitrary: f) (simp_all add: register_corner_entities)

lemma first_address_element:
  "first_address (l_vertex f) \<and> 2 \<le> block (entities f) \<Longrightarrow>
   first_address (l_vertex (register_element near f e))
   \<and> 2 \<le> block (entities (register_element near f e))"
  using block_push_back [of "entities f" "seed e"]
  by (simp add: register_element_def first_address_corners entities_corners)

lemma first_address_elements:
  "first_address (l_vertex f) \<and> 2 \<le> block (entities f) \<Longrightarrow>
   first_address (l_vertex (foldl (register_element near) f es))
   \<and> 2 \<le> block (entities (foldl (register_element near) f es))"
proof (induction es arbitrary: f)
  case Nil
  then show ?case by simp
next
  case (Cons e es)
  from Cons.IH [OF first_address_element [OF Cons.prems, of near e]] show ?case by simp
qed

lemma first_two_elements:
  "first_address (l_vertex (register_element near
      (register_element near initial_frame \<lparr>seed = s, corners = c # cs\<rparr>) e))
   \<and> 2 \<le> block (entities (register_element near
      (register_element near initial_frame \<lparr>seed = s, corners = c # cs\<rparr>) e))"
proof -
  let ?f0 = "initial_frame\<lparr>entities := push_back (entities initial_frame) s\<rparr>"
  let ?f1 = "register_corner near ?f0 c"
  let ?F1 = "register_element near initial_frame \<lparr>seed = s, corners = c # cs\<rparr>"
  have e0: "entities ?f0 = \<lparr>block = 1, capacity = 1, elems = [s]\<rparr>"
    by (simp add: initial_frame_def push_back_def empty_vector_def)
  have v1: "l_vertex ?f1 = [\<lparr>global = c, entity_seed = [(1, 0)]\<rparr>]"
    by (simp add: register_corner_def resolve_def initial_frame_def new_Vertex_def
        push_back_def empty_vector_def back_address_def)
  have F1: "?F1 = foldl (register_corner near) ?f1 cs"
    by (simp add: register_element_def)
  have e1: "entities ?F1 = \<lparr>block = 1, capacity = 1, elems = [s]\<rparr>"
    unfolding F1 by (simp add: entities_corners register_corner_entities e0)
  have "first_address (l_vertex ?f1)" unfolding v1 by (simp add: first_address_def)
  then have a1: "first_address (l_vertex ?F1)" unfolding F1 by (rule first_address_corners)
  have "block (push_back (entities ?F1) (seed e)) = 2"
    unfolding e1 by (simp add: push_back_def)
  with a1 show ?thesis
    by (simp add: register_element_def [of near ?F1 e] first_address_corners entities_corners)
qed

lemma first_stored_address_dangles:
  "l_vertex (Root_ctor near (\<lparr>seed = s, corners = c # cs\<rparr> # e # es)) \<noteq> []
   \<and> hd (entity_seed (l_vertex (Root_ctor near (\<lparr>seed = s, corners = c # cs\<rparr> # e # es)) ! 0))
       = (1, 0)
   \<and> deref (entities (Root_ctor near (\<lparr>seed = s, corners = c # cs\<rparr> # e # es))) (1, 0) = None"
proof -
  let ?F = "Root_ctor near (\<lparr>seed = s, corners = c # cs\<rparr> # e # es)"
  from first_address_elements [OF first_two_elements, of near near s c cs e es]
  have "first_address (l_vertex ?F)" and "2 \<le> block (entities ?F)"
    by (simp_all add: Root_ctor_def)
  then show ?thesis by (auto simp add: first_address_def deref_def)
qed

subsection \<open>Facts about point location\<close>

lemma test_seeds_all_fail:
  "\<forall>es \<in> set ps. \<exists>s. deref ents es = Some s \<and> \<not> checkInside s xq \<Longrightarrow>
   test_seeds handled checkInside ents xq ps = bare_throw handled"
  by (induction ps) auto

subsection \<open>The claims\<close>

text \<open>
  C1, as amended: when \<^verbatim>\<open>findNode\<close> returns a leaf that holds at least one vertex, every
  element reference stored in the vertices of that leaf still points into \<^verbatim>\<open>_entities\<close>,
  and no candidate element passes the inclusive test, \<^verbatim>\<open>findEntity\<close> returns no element:
  control leaves through the operand-less \<^verbatim>\<open>throw;\<close> of line 178, which carries no type
  and no payload, so the condition is not surfaced distinctly from any other failure.
\<close>

theorem findEntity_no_candidate:
  assumes "findNode xq = Some node" and "vertex node \<noteq> []"
    and "\<forall>v \<in> set (vertex node). \<forall>es \<in> set (entity_seed v).
           \<exists>s. deref (entities this) es = Some s \<and> \<not> checkInside s xq"
  shows "findEntity handled findNode checkInside this xq = bare_throw handled
     \<and> findEntity handled findNode checkInside this xq \<noteq> Returned ep"
proof -
  from assms(2) obtain v0 vs where v: "vertex node = v0 # vs" by (cases "vertex node") auto
  with assms(3) have "\<forall>es \<in> set (entity_seed v0).
           \<exists>s. deref (entities this) es = Some s \<and> \<not> checkInside s xq"
    by simp
  from test_seeds_all_fail [where ps = "entity_seed v0" and ents = "entities this"
      and checkInside = checkInside and xq = xq and handled = handled, OF this]
  have "findEntity handled findNode checkInside this xq = bare_throw handled"
    using assms(1) v by (simp add: findEntity_def)
  with bare_throw_not_Returned [of handled ep] show ?thesis by simp
qed

theorem findEntity_no_candidate_witness:
  "findEntity (Some 3 :: nat option)
     (single_leaf \<lparr>vertex = drop 3 (l_vertex (Root_ctor (within_tol double_epsilon)
      [\<lparr>seed = 10, corners = [[10], [11]]\<rparr>, \<lparr>seed = 11, corners = [[11], [12]]\<rparr>,
       \<lparr>seed = 0, corners = [[0], [1]]\<rparr>, \<lparr>seed = 2, corners = [[2], [3]]\<rparr>])),
                   bounding_box = Box [0] [3]\<rparr>)
     segment_checkInside
     (Root_ctor (within_tol double_epsilon)
      [\<lparr>seed = 10, corners = [[10], [11]]\<rparr>, \<lparr>seed = 11, corners = [[11], [12]]\<rparr>,
       \<lparr>seed = 0, corners = [[0], [1]]\<rparr>, \<lparr>seed = 2, corners = [[2], [3]]\<rparr>])
     [3 / 2]
   = Rethrown 3"
proof -
  let ?F = "Root_ctor (within_tol double_epsilon)
      [\<lparr>seed = 10, corners = [[10], [11]]\<rparr>, \<lparr>seed = 11, corners = [[11], [12]]\<rparr>,
       \<lparr>seed = 0, corners = [[0], [1]]\<rparr>, \<lparr>seed = 2, corners = [[2], [3]]\<rparr>]"
  let ?vs = "[\<lparr>global = [0], entity_seed = [(3, 2)]\<rparr>, \<lparr>global = [1], entity_seed = [(3, 2)]\<rparr>,
              \<lparr>global = [2], entity_seed = [(3, 3)]\<rparr>, \<lparr>global = [3], entity_seed = [(3, 3)]\<rparr>]"
  let ?leaf = "\<lparr>vertex = drop 3 (l_vertex ?F), bounding_box = Box [0] [3]\<rparr>"
  have v: "drop 3 (l_vertex ?F) = ?vs" by (simp add: run_ctor run_test)
  have e: "entities ?F = \<lparr>block = 3, capacity = 4, elems = [10, 11, 0, 2]\<rparr>"
    by (simp add: run_ctor run_test)
  have h1: "single_leaf ?leaf [3 / 2] = Some ?leaf" by (simp add: single_leaf_def)
  have h2: "vertex ?leaf \<noteq> []" unfolding Node.simps v by simp
  have h3: "\<forall>v \<in> set (vertex ?leaf). \<forall>es \<in> set (entity_seed v).
           \<exists>s. deref (entities ?F) es = Some s \<and> \<not> segment_checkInside s [3 / 2]"
    unfolding Node.simps v e by (simp add: deref_def segment_checkInside_def)
  from findEntity_no_candidate [where findNode = "single_leaf ?leaf" and xq = "[3 / 2]"
      and checkInside = segment_checkInside and handled = "Some (3::nat)" and this = ?F
      and ep = 7, OF h1 h2 h3]
  show ?thesis by (simp add: bare_throw_def)
qed

text \<open>
  C1 as stated fails. In the grid of the four segments from 10 to 11, 11 to 12, 0 to 1
  and 2 to 3, the leaf with the vertices at 0, 1, 2 and 3 is asked for the coordinate
  3/2, which lies in its box and in no element: with no exception being handled by the
  caller, the \<^verbatim>\<open>throw;\<close> ends the program instead of signalling a typed failure. In the
  grid of the last two segments alone, the address the first vertex holds points into the
  allocation that the second \<^verbatim>\<open>push_back\<close> released, and the same query reads through
  it: the behaviour is undefined.
\<close>

theorem findEntity_terminates_program:
  "contains (Box [0] [3]) [3 / 2]
   \<and> \<not> segment_checkInside 10 [3 / 2] \<and> \<not> segment_checkInside 11 [3 / 2]
   \<and> \<not> segment_checkInside 0 [3 / 2] \<and> \<not> segment_checkInside 2 [3 / 2]
   \<and> findEntity (None :: nat option)
     (single_leaf \<lparr>vertex = drop 3 (l_vertex (Root_ctor (within_tol double_epsilon)
      [\<lparr>seed = 10, corners = [[10], [11]]\<rparr>, \<lparr>seed = 11, corners = [[11], [12]]\<rparr>,
       \<lparr>seed = 0, corners = [[0], [1]]\<rparr>, \<lparr>seed = 2, corners = [[2], [3]]\<rparr>])),
                   bounding_box = Box [0] [3]\<rparr>)
     segment_checkInside
     (Root_ctor (within_tol double_epsilon)
      [\<lparr>seed = 10, corners = [[10], [11]]\<rparr>, \<lparr>seed = 11, corners = [[11], [12]]\<rparr>,
       \<lparr>seed = 0, corners = [[0], [1]]\<rparr>, \<lparr>seed = 2, corners = [[2], [3]]\<rparr>])
     [3 / 2]
   = Terminated
   \<and> findEntity (None :: nat option)
     (single_leaf \<lparr>vertex = l_vertex (Root_ctor (within_tol double_epsilon)
      [\<lparr>seed = 0, corners = [[0], [1]]\<rparr>, \<lparr>seed = 2, corners = [[2], [3]]\<rparr>]),
                   bounding_box = Box [0] [3]\<rparr>)
     segment_checkInside
     (Root_ctor (within_tol double_epsilon)
      [\<lparr>seed = 0, corners = [[0], [1]]\<rparr>, \<lparr>seed = 2, corners = [[2], [3]]\<rparr>])
     [3 / 2]
   = Undefined"
  by (simp add: run_ctor run_test findEntity_def single_leaf_def deref_def
      segment_checkInside_def bare_throw_def)

text \<open>
  C2, as amended: the coordinate stored in a vertex is the corner coordinate that was
  resolved to it most recently. Whenever no later corner of the pass is resolved to the
  vertex of the \<open>k\<close>-th corner, that vertex holds the coordinate of the \<open>k\<close>-th corner
  when the pass ends: a later coordinate within tolerance replaces the stored one (it is
  not averaged with it, and the first coordinate is not kept).
\<close>

theorem Root_ctor_latest_coordinate_wins:
  assumes "k < length (concat (map corners gridview))"
    and "\<forall>m. k < m \<and> m < length (concat (map corners gridview)) \<longrightarrow>
           mesh_resolutions near initial_frame gridview ! m
           \<noteq> mesh_resolutions near initial_frame gridview ! k"
  shows "mesh_resolutions near initial_frame gridview ! k < length (l_vertex (Root_ctor near gridview))
     \<and> global (l_vertex (Root_ctor near gridview) ! (mesh_resolutions near initial_frame gridview ! k))
       = concat (map corners gridview) ! k"
proof -
  have "latest_wins (l_vertex initial_frame) [] []" by (simp add: latest_wins_def)
  from latest_wins_elements [OF this, of near gridview]
  have "latest_wins (l_vertex (Root_ctor near gridview))
          (mesh_resolutions near initial_frame gridview) (concat (map corners gridview))"
    by (simp add: Root_ctor_def)
  with assms show ?thesis unfolding latest_wins_def by simp
qed

theorem Root_ctor_latest_coordinate_wins_witness:
  "global (l_vertex (Root_ctor (within_tol double_epsilon)
             [\<lparr>seed = 7, corners = [[0], [1 / 2 ^ 52], [1]]\<rparr>]) ! 0) = [1 / 2 ^ 52]
   \<and> mesh_resolutions (within_tol double_epsilon) initial_frame
         [\<lparr>seed = 7, corners = [[0], [1 / 2 ^ 52], [1]]\<rparr>] = [0, 0, 1]"
proof -
  let ?g = "[\<lparr>seed = 7, corners = [[0], [1 / 2 ^ 52], [1]]\<rparr>]"
  have r: "mesh_resolutions (within_tol double_epsilon) initial_frame ?g = [0, 0, 1]"
    by (simp add: run_ctor run_test)
  have h1: "1 < length (concat (map corners ?g))" by simp
  have h2: "\<forall>m. 1 < m \<and> m < length (concat (map corners ?g)) \<longrightarrow>
           mesh_resolutions (within_tol double_epsilon) initial_frame ?g ! m
           \<noteq> mesh_resolutions (within_tol double_epsilon) initial_frame ?g ! 1"
  proof (intro allI impI)
    fix m :: nat assume "1 < m \<and> m < length (concat (map corners ?g))"
    then have "m = 2" by simp
    then show "mesh_resolutions (within_tol double_epsilon) initial_frame ?g ! m
           \<noteq> mesh_resolutions (within_tol double_epsilon) initial_frame ?g ! 1"
      unfolding r by simp
  qed
  from Root_ctor_latest_coordinate_wins [OF h1 h2] show ?thesis unfolding r by simp
qed

text \<open>
  C2 as stated fails: both corners of this element are resolved to the vertex at
  position 0, whose first-registered coordinate is 0, and the vertex holds the second
  coordinate when the pass ends.
\<close>

theorem first_coordinate_is_replaced:
  "mesh_resolutions (within_tol double_epsilon) initial_frame
      [\<lparr>seed = 7, corners = [[0], [1 / 2 ^ 52]]\<rparr>] = [0, 0]
   \<and> map global (l_vertex (Root_ctor (within_tol double_epsilon)
         [\<lparr>seed = 7, corners = [[0], [1 / 2 ^ 52]]\<rparr>])) = [[1 / 2 ^ 52]]
   \<and> global (l_vertex (Root_ctor (within_tol double_epsilon)
         [\<lparr>seed = 7, corners = [[0], [1 / 2 ^ 52]]\<rparr>]) ! 0) \<noteq> [0]"
  by (simp add: run_ctor run_test)

text \<open>
  C3: the claim has the elements of every vertex of the leaf tested, the first vertex
  first. \<^verbatim>\<open>findEntity\<close> reads \<^verbatim>\<open>node->vertex(0)\<close> only. In this grid of four segments
  the leaf with the vertices at 0, 1 and 2 is asked for the coordinate 3/2: the segment
  from 1 to 2 contains it and is incident to the second vertex of the leaf, but only the
  segment from 0 to 1, incident to the first vertex, is tested, and no element is returned.
\<close>

theorem findEntity_skips_later_vertices:
  "map entity_seed (drop 3 (l_vertex (Root_ctor (within_tol double_epsilon)
      [\<lparr>seed = 10, corners = [[10], [11]]\<rparr>, \<lparr>seed = 11, corners = [[11], [12]]\<rparr>,
       \<lparr>seed = 0, corners = [[0], [1]]\<rparr>, \<lparr>seed = 1, corners = [[1], [2]]\<rparr>])))
     = [[(3, 2)], [(3, 2), (3, 3)], [(3, 3)]]
   \<and> deref (entities (Root_ctor (within_tol double_epsilon)
      [\<lparr>seed = 10, corners = [[10], [11]]\<rparr>, \<lparr>seed = 11, corners = [[11], [12]]\<rparr>,
       \<lparr>seed = 0, corners = [[0], [1]]\<rparr>, \<lparr>seed = 1, corners = [[1], [2]]\<rparr>])) (3, 3) = Some 1
   \<and> segment_checkInside 1 [3 / 2]
   \<and> findEntity (None :: nat option)
     (single_leaf \<lparr>vertex = drop 3 (l_vertex (Root_ctor (within_tol double_epsilon)
      [\<lparr>seed = 10, corners = [[10], [11]]\<rparr>, \<lparr>seed = 11, corners = [[11], [12]]\<rparr>,
       \<lparr>seed = 0, corners = [[0], [1]]\<rparr>, \<lparr>seed = 1, corners = [[1], [2]]\<rparr>])),
                   bounding_box = Box [0] [2]\<rparr>)
     segment_checkInside
     (Root_ctor (within_tol double_epsilon)
      [\<lparr>seed = 10, corners = [[10], [11]]\<rparr>, \<lparr>seed = 11, corners = [[11], [12]]\<rparr>,
       \<lparr>seed = 0, corners = [[0], [1]]\<rparr>, \<lparr>seed = 1, corners = [[1], [2]]\<rparr>])
     [3 / 2]
   = Terminated"
  by (simp add: run_ctor run_test findEntity_def single_leaf_def deref_def segment_checkInside_def
      bare_throw_def)

text \<open>
  C4, as amended: a corner coordinate is resolved to an already-registered vertex exactly
  when the test of line 106 (the norm of the difference, computed in the scalar type,
  below ten times the machine epsilon) succeeds against the coordinate stored in at least
  one registered vertex, and then to the last such vertex in registration order; when
  the test fails against every stored coordinate, a new vertex is created. The test is
  made against the coordinate the vertex holds at that moment, not between raw
  coordinates. \<open>near\<close> is the outcome of the test.
\<close>

theorem resolve_last_vertex_within_tolerance:
  "(snd (resolve near f gl) = length (l_vertex f))
     = (\<forall>u \<in> set (l_vertex f). \<not> near (global u) gl)
   \<and> (i < length (l_vertex f) \<longrightarrow>
        (snd (resolve near f gl) = i)
        = (near (global (l_vertex f ! i)) gl
           \<and> (\<forall>j. i < j \<and> j < length (l_vertex f)
                 \<longrightarrow> \<not> near (global (l_vertex f ! j)) gl)))"
proof (cases "find_vertex near gl (l_vertex f) 0 None")
  case None
  then have no: "\<forall>u \<in> set (l_vertex f). \<not> near (global u) gl"
    by (simp add: find_vertex_None)
  then have "i < length (l_vertex f) \<Longrightarrow> \<not> near (global (l_vertex f ! i)) gl"
    by simp
  with None no show ?thesis by (auto simp add: resolve_new)
next
  case (Some k)
  then have k: "k < length (l_vertex f)" "near (global (l_vertex f ! k)) gl"
    by (simp_all add: find_vertex_Some)
  then have ex: "\<not> (\<forall>u \<in> set (l_vertex f). \<not> near (global u) gl)"
    using nth_mem by blast
  have "(k = i) = (find_vertex near gl (l_vertex f) 0 None = Some i)"
    using Some by auto
  then have "i < length (l_vertex f) \<Longrightarrow> (k = i)
        = (near (global (l_vertex f ! i)) gl
           \<and> (\<forall>j. i < j \<and> j < length (l_vertex f)
                 \<longrightarrow> \<not> near (global (l_vertex f ! j)) gl))"
    by (simp add: find_vertex_Some)
  with Some k ex show ?thesis by (simp add: resolve_old)
qed

theorem resolve_last_vertex_within_tolerance_witness:
  "1 < length (l_vertex (Root_ctor (within_tol double_epsilon)
                  [\<lparr>seed = 7, corners = [[0], [1]]\<rparr>]))
   \<and> snd (resolve (within_tol double_epsilon)
            (Root_ctor (within_tol double_epsilon) [\<lparr>seed = 7, corners = [[0], [1]]\<rparr>])
            [1 + 1 / 2 ^ 52]) = 1"
proof -
  let ?F = "Root_ctor (within_tol double_epsilon) [\<lparr>seed = 7, corners = [[0], [1]]\<rparr>]"
  have v: "l_vertex ?F = [\<lparr>global = [0], entity_seed = [(1, 0)]\<rparr>,
                         \<lparr>global = [1], entity_seed = [(1, 0)]\<rparr>]"
    by (simp add: run_ctor run_test)
  have h: "1 < length (l_vertex ?F)" unfolding v by simp
  have "within_tol double_epsilon (global (l_vertex ?F ! 1)) [1 + 1 / 2 ^ 52]
        \<and> (\<forall>j. 1 < j \<and> j < length (l_vertex ?F)
              \<longrightarrow> \<not> within_tol double_epsilon (global (l_vertex ?F ! j)) [1 + 1 / 2 ^ 52])"
    unfolding v by (simp add: run_test)
  with resolve_last_vertex_within_tolerance
         [of "within_tol double_epsilon" ?F "[1 + 1 / 2 ^ 52]" 1] h
  show ?thesis by blast
qed

text \<open>
  C4 as stated fails in both directions. The three corners of the first element are all
  resolved to the vertex at position 0, although the first and the third are sixteen
  epsilons apart; in the second element the first and the third corner are six epsilons
  apart and are resolved to different vertices.
\<close>

theorem tolerance_is_not_vertex_identity:
  "mesh_resolutions (within_tol double_epsilon) initial_frame
      [\<lparr>seed = 7, corners = [[0], [8 / 2 ^ 52], [16 / 2 ^ 52]]\<rparr>] = [0, 0, 0]
   \<and> \<not> euclidean_distance [0] [16 / 2 ^ 52] < 10 * double_epsilon
   \<and> mesh_resolutions (within_tol double_epsilon) initial_frame
      [\<lparr>seed = 7, corners = [[0], [12 / 2 ^ 52], [6 / 2 ^ 52]]\<rparr>] = [0, 1, 1]
   \<and> euclidean_distance [0] [6 / 2 ^ 52] < 10 * double_epsilon"
  by (simp add: run_ctor run_test euclidean_distance_on_the_line)

text \<open>
  C5, as amended: registering a coordinate that is within tolerance of the coordinate
  stored in an already-registered vertex never increases the vertex count. The vertex
  store changes in one vertex only, the one the coordinate is resolved to: the element
  reference is appended to its incident-element list and its stored coordinate is
  replaced by the registered coordinate.
\<close>

theorem register_corner_merge:
  assumes "\<exists>u \<in> set (l_vertex f). near (global u) gl"
  shows "snd (resolve near f gl) < length (l_vertex f)
     \<and> near (global (l_vertex f ! snd (resolve near f gl))) gl
     \<and> length (l_vertex (register_corner near f gl)) = length (l_vertex f)
     \<and> l_vertex (register_corner near f gl) =
         (l_vertex f)[snd (resolve near f gl) :=
            (l_vertex f ! snd (resolve near f gl))
              \<lparr>global := gl,
               entity_seed := entity_seed (l_vertex f ! snd (resolve near f gl))
                              @ [back_address (entities f)]\<rparr>]"
proof (cases "find_vertex near gl (l_vertex f) 0 None")
  case None
  with assms show ?thesis by (simp add: find_vertex_None)
next
  case (Some i)
  then have "i < length (l_vertex f)" "near (global (l_vertex f ! i)) gl"
    by (simp_all add: find_vertex_Some)
  with Some show ?thesis by (simp add: resolve_old register_corner_old)
qed

theorem register_corner_merge_witness:
  "l_vertex (register_corner (within_tol double_epsilon)
      (Root_ctor (within_tol double_epsilon) [\<lparr>seed = 7, corners = [[0], [1]]\<rparr>])
      [1 + 1 / 2 ^ 52])
   = [\<lparr>global = [0], entity_seed = [(1, 0)]\<rparr>,
      \<lparr>global = [1 + 1 / 2 ^ 52], entity_seed = [(1, 0), (1, 0)]\<rparr>]"
proof -
  let ?F = "Root_ctor (within_tol double_epsilon) [\<lparr>seed = 7, corners = [[0], [1]]\<rparr>]"
  have v: "l_vertex ?F = [\<lparr>global = [0], entity_seed = [(1, 0)]\<rparr>,
                         \<lparr>global = [1], entity_seed = [(1, 0)]\<rparr>]"
    by (simp add: run_ctor run_test)
  have e: "entities ?F = \<lparr>block = 1, capacity = 1, elems = [7]\<rparr>"
    by (simp add: run_ctor run_test)
  have r: "snd (resolve (within_tol double_epsilon) ?F [1 + 1 / 2 ^ 52]) = 1"
    by (simp add: run_ctor run_test)
  have h: "\<exists>u \<in> set (l_vertex ?F). within_tol double_epsilon (global u) [1 + 1 / 2 ^ 52]"
    unfolding v by (simp add: run_test)
  from register_corner_merge [of ?F "within_tol double_epsilon" "[1 + 1 / 2 ^ 52]", OF h]
  show ?thesis
    unfolding r unfolding v e by (simp add: back_address_def)
qed

text \<open>
  C5 as stated fails: registering a coordinate one epsilon away from the only vertex
  does more to the vertex store than appending the element reference; the stored
  coordinate changes from 0 to the registered coordinate.
\<close>

theorem merge_changes_stored_coordinate:
  "l_vertex (Root_ctor (within_tol double_epsilon) [\<lparr>seed = 7, corners = [[0]]\<rparr>])
     = [\<lparr>global = [0], entity_seed = [(1, 0)]\<rparr>]
   \<and> within_tol double_epsilon [0] [1 / 2 ^ 52]
   \<and> l_vertex (register_corner (within_tol double_epsilon)
        (Root_ctor (within_tol double_epsilon) [\<lparr>seed = 7, corners = [[0]]\<rparr>]) [1 / 2 ^ 52])
     = [\<lparr>global = [1 / 2 ^ 52], entity_seed = [(1, 0), (1, 0)]\<rparr>]
   \<and> l_vertex (register_corner (within_tol double_epsilon)
        (Root_ctor (within_tol double_epsilon) [\<lparr>seed = 7, corners = [[0]]\<rparr>]) [1 / 2 ^ 52])
     \<noteq> [\<lparr>global = [0], entity_seed = [(1, 0), (1, 0)]\<rparr>]"
  by (simp add: run_ctor run_test)

text \<open>
  C7, as amended: during the construction of \<^verbatim>\<open>tree::Root\<close> the bounding box absorbs
  the corner coordinates that create a new vertex, and only those: when the pass ends,
  \<^verbatim>\<open>append\<close> has been invoked, in the order of the pass, for exactly the corners that
  were resolved to a vertex no earlier corner was resolved to. A corner that is merged
  into an existing vertex is not appended.
\<close>

theorem Root_ctor_bounding_box:
  "bounding_box (Root_ctor near gridview) =
     foldl append_box Empty
       (new_vertex_corners [] (mesh_resolutions near initial_frame gridview)
          (concat (map corners gridview)))"
proof -
  have "set [] = {..<length (l_vertex initial_frame)}" by (simp add: initial_frame_def)
  from box_elements [OF this, of near gridview] show ?thesis
    by (simp add: Root_ctor_def initial_frame_def)
qed

theorem Root_ctor_bounding_box_witness:
  "bounding_box (Root_ctor (within_tol double_epsilon)
      [\<lparr>seed = 7, corners = [[0], [1]]\<rparr>, \<lparr>seed = 8, corners = [[1], [2]]\<rparr>])
   = Box [0] [2]
   \<and> new_vertex_corners [] [0, 1, 1, 2] [[0], [1], [1], [2]] = [[0], [1], [2]]"
proof -
  let ?g = "[\<lparr>seed = 7, corners = [[0], [1]]\<rparr>, \<lparr>seed = 8, corners = [[1], [2]]\<rparr>]"
  have r: "mesh_resolutions (within_tol double_epsilon) initial_frame ?g = [0, 1, 1, 2]"
    by (simp add: run_ctor run_test)
  from Root_ctor_bounding_box [of "within_tol double_epsilon" ?g] show ?thesis
    unfolding r by simp
qed

text \<open>
  C7 as stated fails: the second corner of this element is merged into the vertex of the
  first, \<^verbatim>\<open>append\<close> is not invoked for it, and the box does not contain it when the
  pass ends.
\<close>

theorem merged_corner_outside_box:
  "concat (map corners [\<lparr>seed = 7, corners = [[0], [1 / 2 ^ 52]]\<rparr>]) = [[0], [1 / 2 ^ 52]]
   \<and> bounding_box (Root_ctor (within_tol double_epsilon)
        [\<lparr>seed = 7, corners = [[0], [1 / 2 ^ 52]]\<rparr>]) = Box [0] [0]
   \<and> \<not> contains (bounding_box (Root_ctor (within_tol double_epsilon)
        [\<lparr>seed = 7, corners = [[0], [1 / 2 ^ 52]]\<rparr>])) [1 / 2 ^ 52]"
  by (simp add: run_ctor run_test)

text \<open>
  C8: the claim asks that every element reference stored in a vertex stays valid while
  the element container grows. The constructor stores the address
  \<^verbatim>\<open>&(_entities.back())\<close>; for a grid view of two elements the second \<^verbatim>\<open>push_back\<close>
  moves the container to a new allocation, and the address stored for the first element
  no longer points into the container when the pass ends.
\<close>

theorem stored_address_dangles:
  "entity_seed (l_vertex (Root_ctor (within_tol double_epsilon)
      [\<lparr>seed = 7, corners = [[0], [1]]\<rparr>, \<lparr>seed = 8, corners = [[1], [2]]\<rparr>]) ! 0) = [(1, 0)]
   \<and> entities (Root_ctor (within_tol double_epsilon)
      [\<lparr>seed = 7, corners = [[0], [1]]\<rparr>, \<lparr>seed = 8, corners = [[1], [2]]\<rparr>])
     = \<lparr>block = 2, capacity = 2, elems = [7, 8]\<rparr>
   \<and> deref (entities (Root_ctor (within_tol double_epsilon)
      [\<lparr>seed = 7, corners = [[0], [1]]\<rparr>, \<lparr>seed = 8, corners = [[1], [2]]\<rparr>])) (1, 0) = None"
  by (simp add: run_ctor run_test deref_def)

text \<open>
  C9: copy-constructing a \<^verbatim>\<open>tree::Root\<close> from any root gives a root whose entity-seed
  list and vertex store are empty and whose bounding box is default-initialised; nothing
  of the source root is copied.
\<close>

theorem Root_copy_copies_nothing:
  "elems (entities (Root_copy other)) = [] \<and> vertex (Root_copy other) = []
   \<and> bounding_box (Root_copy other) = Empty \<and> Root_copy other = default_Root"
  by (simp add: Root_copy_def default_Root_def empty_vector_def)

text \<open>
  C10, as amended: for every trajectory and every point, the one-argument \<^verbatim>\<open>insert\<close>
  returns exactly when \<open>adepting\<close> is true, and then both the vector and the deque are
  unchanged, so the point is never inserted. When \<open>adepting\<close> is false it reaches its
  operand-less \<^verbatim>\<open>throw;\<close>: an exception leaves the call only if one is being handled at
  that moment, and it is that exception; with none being handled the program is ended.
\<close>

theorem Trajectory_insert_outcome:
  "(adepting tr \<longrightarrow> Trajectory_insert handled xt tr = Returned tr)
   \<and> (\<not> adepting tr \<longrightarrow> Trajectory_insert handled xt tr = bare_throw handled)
   \<and> (Trajectory_insert handled xt tr = Returned tr') = (adepting tr \<and> tr' = tr)
   \<and> (Trajectory_insert handled xt tr = Rethrown e) = (\<not> adepting tr \<and> handled = Some e)
   \<and> (Trajectory_insert handled xt tr = Terminated) = (\<not> adepting tr \<and> handled = None)"
  by (cases handled) (auto simp add: Trajectory_insert_def bare_throw_def)

theorem Trajectory_insert_outcome_witness:
  "Trajectory_insert (None :: nat option) \<lparr>XT_x = [3, 4], XT_t = 1\<rparr>
         \<lparr>adepting = True, data = [\<lparr>XT_x = [1, 2], XT_t = 0\<rparr>], dq = []\<rparr>
       = Returned \<lparr>adepting = True, data = [\<lparr>XT_x = [1, 2], XT_t = 0\<rparr>], dq = []\<rparr>
   \<and> Trajectory_insert (Some 5 :: nat option) \<lparr>XT_x = [3, 4], XT_t = 1\<rparr>
         \<lparr>adepting = False, data = [\<lparr>XT_x = [1, 2], XT_t = 0\<rparr>], dq = []\<rparr>
       = Rethrown 5"
  using Trajectory_insert_outcome [where handled = "None :: nat option"
      and xt = "\<lparr>XT_x = [3, 4], XT_t = 1\<rparr>"
      and tr = "\<lparr>adepting = True, data = [\<lparr>XT_x = [1, 2], XT_t = 0\<rparr>], dq = []\<rparr>"]
    Trajectory_insert_outcome [where handled = "Some (5::nat)"
      and xt = "\<lparr>XT_x = [3, 4], XT_t = 1\<rparr>"
      and tr = "\<lparr>adepting = False, data = [\<lparr>XT_x = [1, 2], XT_t = 0\<rparr>], dq = []\<rparr>"]
  by (simp add: bare_throw_def)

text \<open>
  C10 as stated fails: with \<open>adepting\<close> false and no exception being handled by the
  caller, no exception leaves the call; the program is ended.
\<close>

theorem Trajectory_insert_ends_program:
  "\<not> adepting \<lparr>adepting = False, data = [\<lparr>XT_x = [1, 2], XT_t = 0\<rparr>], dq = []\<rparr>
   \<and> Trajectory_insert (None :: nat option) \<lparr>XT_x = [3, 4], XT_t = 1\<rparr>
         \<lparr>adepting = False, data = [\<lparr>XT_x = [1, 2], XT_t = 0\<rparr>], dq = []\<rparr>
       = Terminated"
  by (simp add: Trajectory_insert_def bare_throw_def)

end
